theory Spec2Isabelle
  imports Main "HOL-Library.Sublist"
begin

section \<open>Image manager microservice (app.py)\<close>

text \<open>
  The service keeps image content in an object-storage bucket and one metadata row per
  image in the table \<open>images\<close>. Its four request handlers call the two backends one
  statement after the other. The model threads a \<open>world\<close> (bucket, table, open database
  connections and a log of the backend calls made) through every call; a call that raises is
  the value \<open>Inl\<close>, carried together with the world as it stood when the exception left
  the handler.
\<close>

subsection \<open>Data\<close>

text \<open>
  The exceptions of the two client libraries, under the names of the error taxonomy:
  the storage client raises on a failed write or a missing object, the database
  connector on a failed connection or a rejected statement.
\<close>

datatype error =
    StorageWriteError
  | StorageNotFoundError
  | StoreConnectionError
  | StoreQueryError

text \<open>
  The uploaded part \<open>request.files['file']\<close>. \<open>content_length\<close> is the attribute the
  handlers read; the request parser takes it from the part's own header and it is not
  computed from \<open>stream\<close>, the bytes of the part.
\<close>

record file_storage =
  filename :: string
  content_type :: string
  content_length :: int
  stream :: string

record blob =
  blob_data :: string
  blob_content_type :: string
  blob_public :: bool

text \<open>A row of \<open>images(id, filename, filesize_bytes, mime_type, access_url)\<close>.\<close>

record image =
  row_id :: int
  row_filename :: string
  filesize_bytes :: int
  mime_type :: string
  access_url :: string

text \<open>The payload handed to \<open>format_response\<close>: Python dicts, lists, strings and ints.\<close>

datatype payload =
    Str string
  | Num int
  | Arr "payload list"
  | Obj "(string \<times> payload) list"

text \<open>
  \<open>JsonBody d\<close> stands for the bytes of \<open>jsonify(d)\<close>, \<open>XmlBody d\<close> for the bytes of
  \<open>dicttoxml(d, custom_root='response', attr_type=False)\<close>; the two serialisers are
  library code and are not unfolded further.
\<close>

datatype body = JsonBody payload | XmlBody payload

record response =
  status :: int
  resp_content_type :: string
  resp_body :: body

text \<open>\<open>accept\<close> is \<open>request.headers.get('Accept')\<close>; \<open>files\<close> is \<open>request.files\<close>.\<close>

record request =
  accept :: "string option"
  files :: "string \<rightharpoonup> file_storage"

text \<open>The backend calls a handler makes; \<open>faults\<close> below says which of them raise.\<close>

datatype call =
    CallConnect
  | CallSelect
  | CallInsert
  | CallUpdate
  | CallDelete
  | CallCommit
  | CallBlobUpload
  | CallBlobMakePublic
  | CallBlobDelete

text \<open>One entry of the log per call, with the arguments the handler passed.\<close>

datatype event =
    EvConnect
  | EvCursor
  | EvSelectAll
  | EvSelectById int
  | EvInsert string int string string
  | EvUpdate string int string string int
  | EvDeleteRow int
  | EvCommit
  | EvCursorClose
  | EvConnClose
  | EvBlobUpload string string
  | EvBlobMakePublic string
  | EvBlobDelete string

text \<open>
  What the process is configured with and what the backends do during one request:
  the address parts of \<open>blob.public_url\<close> (base URL, \<open>GCP_BUCKET_NAME\<close>, the
  percent-encoding of the key) and, for every backend call, the exception it raises, if any.
\<close>

record env =
  storage_base_url :: string
  bucket_name :: string
  quote :: "string \<Rightarrow> string"
  faults :: "call \<Rightarrow> error option"

record world =
  bucket :: "string \<rightharpoonup> blob"
  rows :: "image list"
  next_id :: int
  open_conns :: nat
  trace :: "event list"

subsection \<open>Sequencing statements that may raise\<close>

type_synonym 'a io = "world \<Rightarrow> (error + 'a) \<times> world"

definition returnE :: "'a \<Rightarrow> 'a io" where
  "returnE x s = (Inr x, s)"

definition bindE :: "'a io \<Rightarrow> ('a \<Rightarrow> 'b io) \<Rightarrow> 'b io" where
  "bindE m f s = (case m s of (Inl e, s') \<Rightarrow> (Inl e, s') | (Inr x, s') \<Rightarrow> f x s')"

definition log :: "event \<Rightarrow> world \<Rightarrow> world" where
  "log e s = s\<lparr>trace := trace s @ [e]\<rparr>"

text \<open>The calls logged by a run that started in \<open>s\<close> and ended in \<open>s'\<close>.\<close>

definition calls_made :: "world \<Rightarrow> world \<Rightarrow> event list" where
  "calls_made s s' = drop (length (trace s)) (trace s')"

subsection \<open>The database connector\<close>

definition get_db_connection :: "env \<Rightarrow> unit io" where
  "get_db_connection ev s =
     (let s1 = log EvConnect s in
      case faults ev CallConnect of
        Some e \<Rightarrow> (Inl e, s1)
      | None \<Rightarrow> (Inr (), s1\<lparr>open_conns := Suc (open_conns s1)\<rparr>))"

definition conn_cursor :: "unit io" where
  "conn_cursor s = (Inr (), log EvCursor s)"

text \<open>\<open>SELECT filename FROM images WHERE id = %s\<close> followed by \<open>fetchone()\<close>.\<close>

definition select_filename :: "env \<Rightarrow> int \<Rightarrow> string option io" where
  "select_filename ev image_id s =
     (let s1 = log (EvSelectById image_id) s in
      case faults ev CallSelect of
        Some e \<Rightarrow> (Inl e, s1)
      | None \<Rightarrow>
          (Inr (map_option row_filename (find (\<lambda>r. row_id r = image_id) (rows s1))), s1))"

text \<open>\<open>SELECT * FROM images\<close> followed by \<open>fetchall()\<close>.\<close>

definition select_all :: "env \<Rightarrow> image list io" where
  "select_all ev s =
     (let s1 = log EvSelectAll s in
      case faults ev CallSelect of
        Some e \<Rightarrow> (Inl e, s1)
      | None \<Rightarrow> (Inr (rows s1), s1))"

text \<open>
  The three writing statements run inside the connection's transaction: each yields the
  table as the transaction sees it, and only \<open>commit\<close> stores that table. The
  auto-increment counter advances with the INSERT itself.
\<close>

definition execute_insert :: "env \<Rightarrow> string \<Rightarrow> int \<Rightarrow> string \<Rightarrow> string \<Rightarrow> image list io" where
  "execute_insert ev fname fsize mime url s =
     (let s1 = log (EvInsert fname fsize mime url) s in
      case faults ev CallInsert of
        Some e \<Rightarrow> (Inl e, s1)
      | None \<Rightarrow>
          (Inr (rows s1 @ [\<lparr>row_id = next_id s1, row_filename = fname, filesize_bytes = fsize,
                            mime_type = mime, access_url = url\<rparr>]),
           s1\<lparr>next_id := next_id s1 + 1\<rparr>))"

definition execute_update :: "env \<Rightarrow> string \<Rightarrow> int \<Rightarrow> string \<Rightarrow> string \<Rightarrow> int \<Rightarrow> image list io" where
  "execute_update ev fname fsize mime url image_id s =
     (let s1 = log (EvUpdate fname fsize mime url image_id) s in
      case faults ev CallUpdate of
        Some e \<Rightarrow> (Inl e, s1)
      | None \<Rightarrow>
          (Inr (map (\<lambda>r. if row_id r = image_id
                          then r\<lparr>row_filename := fname, filesize_bytes := fsize,
                                 mime_type := mime, access_url := url\<rparr>
                          else r) (rows s1)), s1))"

definition execute_delete :: "env \<Rightarrow> int \<Rightarrow> image list io" where
  "execute_delete ev image_id s =
     (let s1 = log (EvDeleteRow image_id) s in
      case faults ev CallDelete of
        Some e \<Rightarrow> (Inl e, s1)
      | None \<Rightarrow> (Inr (filter (\<lambda>r. row_id r \<noteq> image_id) (rows s1)), s1))"

definition commit :: "env \<Rightarrow> image list \<Rightarrow> unit io" where
  "commit ev pending s =
     (let s1 = log EvCommit s in
      case faults ev CallCommit of
        Some e \<Rightarrow> (Inl e, s1)
      | None \<Rightarrow> (Inr (), s1\<lparr>rows := pending\<rparr>))"

definition cursor_close :: "unit io" where
  "cursor_close s = (Inr (), log EvCursorClose s)"

definition conn_close :: "unit io" where
  "conn_close s = (let s1 = log EvConnClose s in (Inr (), s1\<lparr>open_conns := open_conns s1 - 1\<rparr>))"

subsection \<open>The storage client\<close>

text \<open>\<open>blob.upload_from_file(file, content_type=...)\<close>: writes the object, replacing one of the same key.\<close>

definition blob_upload_from_file :: "env \<Rightarrow> string \<Rightarrow> file_storage \<Rightarrow> string \<Rightarrow> unit io" where
  "blob_upload_from_file ev key file ctype s =
     (let s1 = log (EvBlobUpload key ctype) s in
      case faults ev CallBlobUpload of
        Some e \<Rightarrow> (Inl e, s1)
      | None \<Rightarrow>
          (Inr (), s1\<lparr>bucket := (bucket s1)(key \<mapsto>
                     \<lparr>blob_data = stream file, blob_content_type = ctype, blob_public = False\<rparr>)\<rparr>))"

definition blob_make_public :: "env \<Rightarrow> string \<Rightarrow> unit io" where
  "blob_make_public ev key s =
     (let s1 = log (EvBlobMakePublic key) s in
      case faults ev CallBlobMakePublic of
        Some e \<Rightarrow> (Inl e, s1)
      | None \<Rightarrow>
          (case bucket s1 key of
             None \<Rightarrow> (Inl StorageNotFoundError, s1)
           | Some b \<Rightarrow> (Inr (), s1\<lparr>bucket := (bucket s1)(key \<mapsto> b\<lparr>blob_public := True\<rparr>)\<rparr>)))"

text \<open>\<open>blob.delete()\<close>: raises when the object is not there.\<close>

definition blob_delete :: "env \<Rightarrow> string \<Rightarrow> unit io" where
  "blob_delete ev key s =
     (let s1 = log (EvBlobDelete key) s in
      case faults ev CallBlobDelete of
        Some e \<Rightarrow> (Inl e, s1)
      | None \<Rightarrow>
          (case bucket s1 key of
             None \<Rightarrow> (Inl StorageNotFoundError, s1)
           | Some b \<Rightarrow> (Inr (), s1\<lparr>bucket := (bucket s1)(key := None)\<rparr>)))"

text \<open>\<open>blob.public_url\<close>: base URL, bucket name and the percent-encoded key, joined by slashes.\<close>

definition public_url :: "env \<Rightarrow> string \<Rightarrow> string" where
  "public_url ev key = storage_base_url ev @ ''/'' @ bucket_name ev @ ''/'' @ quote ev key"

subsection \<open>format_response\<close>

definition format_response :: "request \<Rightarrow> payload \<Rightarrow> int \<Rightarrow> response" where
  "format_response req data code =
     (if accept req = Some ''application/xml''
      then \<lparr>status = code, resp_content_type = ''application/xml'', resp_body = XmlBody data\<rparr>
      else \<lparr>status = code, resp_content_type = ''application/json'', resp_body = JsonBody data\<rparr>)"

subsection \<open>The handlers\<close>

text \<open>The messages, as UTF-8 bytes.\<close>

definition msg_no_file :: string where
  "msg_no_file = ''No se encontr'' @ [CHR 0xC3, CHR 0xB3] @ '' el archivo''"

definition msg_not_found :: string where
  "msg_not_found = ''Imagen no encontrada''"

definition msg_uploaded :: string where
  "msg_uploaded = ''Imagen subida correctamente''"

definition msg_updated :: string where
  "msg_updated = ''Imagen actualizada correctamente''"

definition msg_deleted :: string where
  "msg_deleted = ''Imagen eliminada correctamente''"

text \<open>POST /images\<close>

definition upload_image :: "env \<Rightarrow> request \<Rightarrow> response io" where
  "upload_image ev req =
     (case files req ''file'' of
        None \<Rightarrow> returnE (format_response req (Obj [(''error'', Str msg_no_file)]) 400)
      | Some file \<Rightarrow>
          bindE (blob_upload_from_file ev (filename file) file (content_type file)) (\<lambda>_.
          bindE (blob_make_public ev (filename file)) (\<lambda>_.
          bindE (get_db_connection ev) (\<lambda>_.
          bindE conn_cursor (\<lambda>_.
          bindE (execute_insert ev (filename file) (content_length file) (content_type file)
                   (public_url ev (filename file))) (\<lambda>pending.
          bindE (commit ev pending) (\<lambda>_.
          bindE cursor_close (\<lambda>_.
          bindE conn_close (\<lambda>_.
          returnE (format_response req
                     (Obj [(''message'', Str msg_uploaded),
                           (''filename'', Str (filename file)),
                           (''access_url'', Str (public_url ev (filename file)))]) 200))))))))))"

text \<open>GET /images\<close>

definition image_dict :: "image \<Rightarrow> payload" where
  "image_dict r =
     Obj [(''id'', Num (row_id r)), (''filename'', Str (row_filename r)),
          (''filesize_bytes'', Num (filesize_bytes r)), (''mime_type'', Str (mime_type r)),
          (''access_url'', Str (access_url r))]"

definition list_images :: "env \<Rightarrow> request \<Rightarrow> response io" where
  "list_images ev req =
     bindE (get_db_connection ev) (\<lambda>_.
     bindE conn_cursor (\<lambda>_.
     bindE (select_all ev) (\<lambda>images.
     bindE cursor_close (\<lambda>_.
     bindE conn_close (\<lambda>_.
     returnE (format_response req (Obj [(''images'', Arr (map image_dict images))]) 200))))))"

text \<open>PUT /images/<int:image_id>\<close>

definition update_image :: "env \<Rightarrow> request \<Rightarrow> int \<Rightarrow> response io" where
  "update_image ev req image_id =
     (case files req ''file'' of
        None \<Rightarrow> returnE (format_response req (Obj [(''error'', Str msg_no_file)]) 400)
      | Some file \<Rightarrow>
          bindE (get_db_connection ev) (\<lambda>_.
          bindE conn_cursor (\<lambda>_.
          bindE (select_filename ev image_id) (\<lambda>old.
          case old of
            None \<Rightarrow> returnE (format_response req (Obj [(''error'', Str msg_not_found)]) 404)
          | Some old_filename \<Rightarrow>
              bindE (blob_delete ev old_filename) (\<lambda>_.
              bindE (blob_upload_from_file ev (filename file) file (content_type file)) (\<lambda>_.
              bindE (blob_make_public ev (filename file)) (\<lambda>_.
              bindE (execute_update ev (filename file) (content_length file) (content_type file)
                       (public_url ev (filename file)) image_id) (\<lambda>pending.
              bindE (commit ev pending) (\<lambda>_.
              bindE cursor_close (\<lambda>_.
              bindE conn_close (\<lambda>_.
              returnE (format_response req
                         (Obj [(''message'', Str msg_updated),
                               (''new_url'', Str (public_url ev (filename file)))]) 200))))))))))))"

text \<open>DELETE /images/<int:image_id>\<close>

definition delete_image :: "env \<Rightarrow> request \<Rightarrow> int \<Rightarrow> response io" where
  "delete_image ev req image_id =
     bindE (get_db_connection ev) (\<lambda>_.
     bindE conn_cursor (\<lambda>_.
     bindE (select_filename ev image_id) (\<lambda>img.
     case img of
       None \<Rightarrow> returnE (format_response req (Obj [(''error'', Str msg_not_found)]) 404)
     | Some img_filename \<Rightarrow>
         bindE (blob_delete ev img_filename) (\<lambda>_.
         bindE (execute_delete ev image_id) (\<lambda>pending.
         bindE (commit ev pending) (\<lambda>_.
         bindE cursor_close (\<lambda>_.
         bindE conn_close (\<lambda>_.
         returnE (format_response req (Obj [(''message'', Str msg_deleted)]) 200)))))))))"

text \<open>The routes of the application: method and path select the handler.\<close>

datatype route =
    PostImages
  | GetImages
  | PutImage int
  | DeleteImage int

fun dispatch :: "env \<Rightarrow> route \<Rightarrow> request \<Rightarrow> response io" where
  "dispatch ev PostImages req = upload_image ev req"
| "dispatch ev GetImages req = list_images ev req"
| "dispatch ev (PutImage image_id) req = update_image ev req image_id"
| "dispatch ev (DeleteImage image_id) req = delete_image ev req image_id"

subsection \<open>The orderings and invariants the properties speak about\<close>


text \<open>The sequence of backend calls of a Create that runs to its end: upload, then insert.\<close>

definition create_calls :: "env \<Rightarrow> file_storage \<Rightarrow> event list" where
  "create_calls ev file =
     [EvBlobUpload (filename file) (content_type file),
      EvBlobMakePublic (filename file),
      EvConnect, EvCursor,
      EvInsert (filename file) (content_length file) (content_type file)
        (public_url ev (filename file)),
      EvCommit, EvCursorClose, EvConnClose]"

text \<open>The exception of the first call, in the order given, that raises.\<close>

fun first_fault :: "env \<Rightarrow> call list \<Rightarrow> error option" where
  "first_fault ev [] = None"
| "first_fault ev (c # cs) = (case faults ev c of Some e \<Rightarrow> Some e | None \<Rightarrow> first_fault ev cs)"

text \<open>A record references the blob of a key through its filename or through its address.\<close>

definition references :: "env \<Rightarrow> image \<Rightarrow> string \<Rightarrow> bool" where
  "references ev r key = (row_filename r = key \<or> access_url r = public_url ev key)"

text \<open>
  What every table written by the handlers satisfies: ids lie below the auto-increment
  counter, and a row's address is the public address of its filename.
\<close>

definition world_ok :: "env \<Rightarrow> world \<Rightarrow> bool" where
  "world_ok ev s =
     (\<forall>r \<in> set (rows s). row_id r < next_id s \<and> access_url r = public_url ev (row_filename r))"

subsection \<open>Sample requests and worlds\<close>

definition env_ok :: env where
  "env_ok = \<lparr>storage_base_url = ''https://storage.googleapis.com'', bucket_name = ''imagenes'',
             quote = (\<lambda>k. k), faults = (\<lambda>c. None)\<rparr>"

definition env_upload_fails :: env where
  "env_upload_fails = env_ok\<lparr>faults := (\<lambda>c. None)(CallBlobUpload \<mapsto> StorageWriteError)\<rparr>"

definition env_insert_fails :: env where
  "env_insert_fails = env_ok\<lparr>faults := (\<lambda>c. None)(CallInsert \<mapsto> StoreQueryError)\<rparr>"

definition env_blob_delete_fails :: env where
  "env_blob_delete_fails = env_ok\<lparr>faults := (\<lambda>c. None)(CallBlobDelete \<mapsto> StorageWriteError)\<rparr>"

text \<open>
  \<open>cat.png\<close>, \<open>image/png\<close>, 1024 bytes of content, in a multipart part that has no
  Content-Length header of its own, so that \<open>content_length\<close> reads 0.
\<close>

definition cat_png :: file_storage where
  "cat_png = \<lparr>filename = ''cat.png'', content_type = ''image/png'', content_length = 0,
              stream = replicate 1024 (CHR ''a'')\<rparr>"

definition dog_png :: file_storage where
  "dog_png = \<lparr>filename = ''dog.png'', content_type = ''image/png'', content_length = 3,
              stream = ''dog''\<rparr>"

definition bare_request :: request where
  "bare_request = \<lparr>accept = None, files = Map.empty\<rparr>"

definition xml_request :: request where
  "xml_request = \<lparr>accept = Some ''application/xml'', files = Map.empty\<rparr>"

definition json_request :: request where
  "json_request = \<lparr>accept = Some ''application/json'', files = Map.empty\<rparr>"

definition post_cat :: request where
  "post_cat = \<lparr>accept = None, files = [''file'' \<mapsto> cat_png]\<rparr>"

definition put_dog :: request where
  "put_dog = \<lparr>accept = None, files = [''file'' \<mapsto> dog_png]\<rparr>"

definition empty_world :: world where
  "empty_world = \<lparr>bucket = Map.empty, rows = [], next_id = 1, open_conns = 0, trace = []\<rparr>"

definition cat_row :: image where
  "cat_row = \<lparr>row_id = 1, row_filename = ''cat.png'', filesize_bytes = 3, mime_type = ''image/png'',
              access_url = ''https://storage.googleapis.com/imagenes/cat.png''\<rparr>"

definition old_cat_blob :: blob where
  "old_cat_blob = \<lparr>blob_data = ''old'', blob_content_type = ''image/png'', blob_public = True\<rparr>"

text \<open>One record, id 1, with its blob.\<close>

definition one_image_world :: world where
  "one_image_world = \<lparr>bucket = [''cat.png'' \<mapsto> old_cat_blob], rows = [cat_row], next_id = 2,
                      open_conns = 0, trace = []\<rparr>"

text \<open>One record, id 1, whose blob is missing from the bucket.\<close>

definition dangling_world :: world where
  "dangling_world = \<lparr>bucket = Map.empty, rows = [cat_row], next_id = 2, open_conns = 0, trace = []\<rparr>"

section \<open>Properties\<close>

lemmas prim_defs = returnE_def bindE_def log_def get_db_connection_def conn_cursor_def
  select_filename_def select_all_def execute_insert_def execute_update_def execute_delete_def
  commit_def cursor_close_def conn_close_def blob_upload_from_file_def blob_make_public_def
  blob_delete_def calls_made_def

lemmas handler_defs = upload_image_def list_images_def update_image_def delete_image_def

lemmas run_defs = handler_defs prim_defs format_response_def public_url_def Let_def

subsection \<open>Response formatter\<close>

text \<open>
  C6: For every request and every result payload, the response is XML with content-type
  \<open>application/xml\<close> exactly when the request's Accept header is the literal string
  \<open>application/xml\<close>; for every other Accept value, and when the header is absent, the
  response is JSON; in both cases it carries the given status code.
\<close>

theorem format_response_negotiation:
  "(accept req = Some ''application/xml'' \<longrightarrow>
      format_response req d code =
        \<lparr>status = code, resp_content_type = ''application/xml'', resp_body = XmlBody d\<rparr>) \<and>
   (accept req \<noteq> Some ''application/xml'' \<longrightarrow>
      format_response req d code =
        \<lparr>status = code, resp_content_type = ''application/json'', resp_body = JsonBody d\<rparr>) \<and>
   status (format_response req d code) = code"
  by (simp add: format_response_def)

theorem format_response_negotiation_witness:
  "accept xml_request = Some ''application/xml'' \<and>
   format_response xml_request (Obj []) 200 =
     \<lparr>status = 200, resp_content_type = ''application/xml'', resp_body = XmlBody (Obj [])\<rparr> \<and>
   accept bare_request \<noteq> Some ''application/xml'' \<and>
   format_response bare_request (Obj []) 404 =
     \<lparr>status = 404, resp_content_type = ''application/json'', resp_body = JsonBody (Obj [])\<rparr> \<and>
   accept json_request \<noteq> Some ''application/xml'' \<and>
   format_response json_request (Obj []) 400 =
     \<lparr>status = 400, resp_content_type = ''application/json'', resp_body = JsonBody (Obj [])\<rparr>"
  using format_response_negotiation [of xml_request "Obj []" 200]
    format_response_negotiation [of bare_request "Obj []" 404]
    format_response_negotiation [of json_request "Obj []" 400]
  by (simp add: xml_request_def bare_request_def json_request_def)

subsection \<open>Validation and lookup\<close>

text \<open>
  C8: For every Create or Replace request whose file part is missing, the response status
  is 400 and neither backend is mutated: the handler returns before any backend call, and
  the world (bucket, table, connections, log) is the one it started with.
\<close>

theorem missing_file_400_no_mutation:
  assumes "files req ''file'' = None"
  shows "upload_image ev req s =
           (Inr (format_response req (Obj [(''error'', Str msg_no_file)]) 400), s) \<and>
         update_image ev req image_id s =
           (Inr (format_response req (Obj [(''error'', Str msg_no_file)]) 400), s) \<and>
         status (format_response req (Obj [(''error'', Str msg_no_file)]) 400) = 400"
  using assms by (simp add: upload_image_def update_image_def returnE_def format_response_def)

theorem missing_file_400_no_mutation_witness:
  "files bare_request ''file'' = None \<and>
   upload_image env_ok bare_request one_image_world =
     (Inr \<lparr>status = 400, resp_content_type = ''application/json'',
           resp_body = JsonBody (Obj [(''error'', Str msg_no_file)])\<rparr>, one_image_world) \<and>
   update_image env_ok bare_request 1 one_image_world =
     (Inr \<lparr>status = 400, resp_content_type = ''application/json'',
           resp_body = JsonBody (Obj [(''error'', Str msg_no_file)])\<rparr>, one_image_world)"
  using missing_file_400_no_mutation [of bare_request env_ok one_image_world 1]
  by (simp add: bare_request_def format_response_def)

text \<open>
  C2, as the code has it: for every Replace request the file part is validated first. When
  it is missing the request fails with 400 whatever the id, before any backend call; when it
  is present the record is looked up, and a non-existent id fails with 404 right after the
  lookup, before any blob call (the lookup itself not raising).
\<close>

theorem update_image_validates_then_looks_up:
  assumes "update_image ev req image_id s = (res, s')"
  shows "(files req ''file'' = None \<longrightarrow>
            res = Inr (format_response req (Obj [(''error'', Str msg_no_file)]) 400) \<and>
            calls_made s s' = []) \<and>
         (files req ''file'' \<noteq> None \<and> find (\<lambda>r. row_id r = image_id) (rows s) = None \<and>
          faults ev CallConnect = None \<and> faults ev CallSelect = None \<longrightarrow>
            res = Inr (format_response req (Obj [(''error'', Str msg_not_found)]) 404) \<and>
            calls_made s s' = [EvConnect, EvCursor, EvSelectById image_id])"
  using assms
  by (auto simp: update_image_def prim_defs Let_def
      split: option.splits sum.splits prod.splits if_splits)

theorem update_image_validates_then_looks_up_witness:
  "files bare_request ''file'' = None \<and>
   fst (update_image env_ok bare_request 7 empty_world) =
     Inr (format_response bare_request (Obj [(''error'', Str msg_no_file)]) 400) \<and>
   calls_made empty_world (snd (update_image env_ok bare_request 7 empty_world)) = [] \<and>
   files put_dog ''file'' \<noteq> None \<and>
   find (\<lambda>r. row_id r = 7) (rows one_image_world) = None \<and>
   faults env_ok CallConnect = None \<and> faults env_ok CallSelect = None \<and>
   fst (update_image env_ok put_dog 7 one_image_world) =
     Inr (format_response put_dog (Obj [(''error'', Str msg_not_found)]) 404) \<and>
   calls_made one_image_world (snd (update_image env_ok put_dog 7 one_image_world)) =
     [EvConnect, EvCursor, EvSelectById 7]"
  using update_image_validates_then_looks_up [of env_ok bare_request 7 empty_world
      "fst (update_image env_ok bare_request 7 empty_world)"
      "snd (update_image env_ok bare_request 7 empty_world)"]
    update_image_validates_then_looks_up [of env_ok put_dog 7 one_image_world
      "fst (update_image env_ok put_dog 7 one_image_world)"
      "snd (update_image env_ok put_dog 7 one_image_world)"]
  by (simp add: bare_request_def put_dog_def env_ok_def one_image_world_def cat_row_def)

text \<open>
  C2 as stated fails: a Replace of the non-existent id 7 without a file part answers 400,
  not 404.
\<close>

theorem update_image_missing_file_unknown_id_400:
  "find (\<lambda>r. row_id r = 7) (rows empty_world) = None \<and>
   files bare_request ''file'' = None \<and>
   fst (update_image env_ok bare_request 7 empty_world) =
     Inr \<lparr>status = 400, resp_content_type = ''application/json'',
          resp_body = JsonBody (Obj [(''error'', Str msg_no_file)])\<rparr>"
  by (simp add: update_image_def returnE_def format_response_def empty_world_def
      bare_request_def)

subsection \<open>Unknown ids\<close>

text \<open>
  C7, as the code has it: for every Delete request, and every Replace request that carries
  a file part, whose id matches no existing record, the response status is 404 (the lookup
  itself not raising); and for every Replace or Delete request whose id matches no existing
  record neither backend is mutated: bucket and table are what they were.
\<close>

theorem unknown_id_404_no_mutation:
  assumes "find (\<lambda>r. row_id r = image_id) (rows s) = None"
    and "delete_image ev req image_id s = (res_d, s_d)"
    and "update_image ev req image_id s = (res_u, s_u)"
  shows "rows s_d = rows s \<and> bucket s_d = bucket s \<and>
         rows s_u = rows s \<and> bucket s_u = bucket s \<and>
         (faults ev CallConnect = None \<and> faults ev CallSelect = None \<longrightarrow>
            res_d = Inr (format_response req (Obj [(''error'', Str msg_not_found)]) 404) \<and>
            (files req ''file'' \<noteq> None \<longrightarrow>
               res_u = Inr (format_response req (Obj [(''error'', Str msg_not_found)]) 404)))"
  using assms
  by (auto simp: delete_image_def update_image_def prim_defs Let_def
      split: option.splits sum.splits prod.splits if_splits)

theorem unknown_id_404_no_mutation_witness:
  "find (\<lambda>r. row_id r = 7) (rows one_image_world) = None \<and>
   faults env_ok CallConnect = None \<and> faults env_ok CallSelect = None \<and>
   files put_dog ''file'' \<noteq> None \<and>
   fst (delete_image env_ok put_dog 7 one_image_world) =
     Inr \<lparr>status = 404, resp_content_type = ''application/json'',
          resp_body = JsonBody (Obj [(''error'', Str msg_not_found)])\<rparr> \<and>
   fst (update_image env_ok put_dog 7 one_image_world) =
     Inr \<lparr>status = 404, resp_content_type = ''application/json'',
          resp_body = JsonBody (Obj [(''error'', Str msg_not_found)])\<rparr> \<and>
   rows (snd (delete_image env_ok put_dog 7 one_image_world)) = [cat_row] \<and>
   bucket (snd (delete_image env_ok put_dog 7 one_image_world)) = [''cat.png'' \<mapsto> old_cat_blob] \<and>
   rows (snd (update_image env_ok put_dog 7 one_image_world)) = [cat_row] \<and>
   bucket (snd (update_image env_ok put_dog 7 one_image_world)) = [''cat.png'' \<mapsto> old_cat_blob]"
  using unknown_id_404_no_mutation [of 7 one_image_world env_ok put_dog
      "fst (delete_image env_ok put_dog 7 one_image_world)"
      "snd (delete_image env_ok put_dog 7 one_image_world)"
      "fst (update_image env_ok put_dog 7 one_image_world)"
      "snd (update_image env_ok put_dog 7 one_image_world)"]
  by (simp add: format_response_def one_image_world_def cat_row_def env_ok_def put_dog_def)

text \<open>
  C7 as stated fails: a Replace of the non-existent id 7 that carries no file part answers
  400, not 404.
\<close>

theorem update_image_unknown_id_not_404:
  "find (\<lambda>r. row_id r = 7) (rows one_image_world) = None \<and>
   fst (update_image env_ok bare_request 7 one_image_world) =
     Inr \<lparr>status = 400, resp_content_type = ''application/json'',
          resp_body = JsonBody (Obj [(''error'', Str msg_no_file)])\<rparr> \<and>
   status \<lparr>status = 400, resp_content_type = ''application/json'',
          resp_body = JsonBody (Obj [(''error'', Str msg_no_file)])\<rparr> \<noteq> 404"
  by (simp add: update_image_def returnE_def format_response_def one_image_world_def
      cat_row_def bare_request_def)

subsection \<open>Replace\<close>



subsection \<open>Create\<close>

text \<open>
  C4, as the code has it: for every Create request with a file part present, the blob upload
  (key = supplied filename, content-type = supplied MIME type) comes before the row insert.
  If the upload or its publication raises, that error is returned, no insert is attempted and
  the table is unchanged. If the upload succeeds and the insert raises (connecting, the
  INSERT or the commit), that error is returned, the table is unchanged and the uploaded blob
  is in the bucket; no record references it provided no record referenced its key before.
\<close>

theorem upload_image_upload_before_insert:
  assumes "files req ''file'' = Some file"
    and "upload_image ev req s = (res, s')"
  shows "prefix (calls_made s s') (create_calls ev file) \<and>
         (first_fault ev [CallBlobUpload, CallBlobMakePublic] = Some e \<longrightarrow>
            res = Inl e \<and> rows s' = rows s \<and>
            EvInsert (filename file) (content_length file) (content_type file)
              (public_url ev (filename file)) \<notin> set (calls_made s s')) \<and>
         (first_fault ev [CallBlobUpload, CallBlobMakePublic] = None \<and>
          first_fault ev [CallConnect, CallInsert, CallCommit] = Some e \<longrightarrow>
            res = Inl e \<and> rows s' = rows s \<and>
            bucket s' (filename file) =
              Some \<lparr>blob_data = stream file, blob_content_type = content_type file,
                    blob_public = True\<rparr> \<and>
            ((\<forall>r \<in> set (rows s). \<not> references ev r (filename file)) \<longrightarrow>
             (\<forall>r \<in> set (rows s'). \<not> references ev r (filename file))))"
  using assms
  by (auto simp: upload_image_def prim_defs create_calls_def Let_def
      split: option.splits sum.splits prod.splits if_splits)

theorem upload_image_upload_before_insert_witness:
  "files post_cat ''file'' = Some cat_png \<and>
   first_fault env_upload_fails [CallBlobUpload, CallBlobMakePublic] = Some StorageWriteError \<and>
   fst (upload_image env_upload_fails post_cat empty_world) = Inl StorageWriteError \<and>
   rows (snd (upload_image env_upload_fails post_cat empty_world)) = [] \<and>
   calls_made empty_world (snd (upload_image env_upload_fails post_cat empty_world)) =
     [EvBlobUpload ''cat.png'' ''image/png''] \<and>
   first_fault env_insert_fails [CallBlobUpload, CallBlobMakePublic] = None \<and>
   first_fault env_insert_fails [CallConnect, CallInsert, CallCommit] = Some StoreQueryError \<and>
   fst (upload_image env_insert_fails post_cat empty_world) = Inl StoreQueryError \<and>
   rows (snd (upload_image env_insert_fails post_cat empty_world)) = [] \<and>
   bucket (snd (upload_image env_insert_fails post_cat empty_world)) ''cat.png'' =
     Some \<lparr>blob_data = stream cat_png, blob_content_type = ''image/png'', blob_public = True\<rparr> \<and>
   calls_made empty_world (snd (upload_image env_insert_fails post_cat empty_world)) =
     [EvBlobUpload ''cat.png'' ''image/png'', EvBlobMakePublic ''cat.png'', EvConnect, EvCursor,
      EvInsert ''cat.png'' 0 ''image/png'' ''https://storage.googleapis.com/imagenes/cat.png'']"
  using upload_image_upload_before_insert [of post_cat cat_png env_upload_fails empty_world
      "fst (upload_image env_upload_fails post_cat empty_world)"
      "snd (upload_image env_upload_fails post_cat empty_world)" StorageWriteError]
    upload_image_upload_before_insert [of post_cat cat_png env_insert_fails empty_world
      "fst (upload_image env_insert_fails post_cat empty_world)"
      "snd (upload_image env_insert_fails post_cat empty_world)" StoreQueryError]
  by (simp add: run_defs env_ok_def env_upload_fails_def env_insert_fails_def post_cat_def
      cat_png_def empty_world_def)

text \<open>
  C4 as stated fails where a record already carries the supplied filename: the upload
  succeeds, the insert raises, and the blob left in the bucket is referenced by that record.
\<close>

theorem upload_image_failed_insert_blob_still_referenced:
  "files post_cat ''file'' = Some cat_png \<and>
   fst (upload_image env_insert_fails post_cat one_image_world) = Inl StoreQueryError \<and>
   bucket (snd (upload_image env_insert_fails post_cat one_image_world)) ''cat.png'' =
     Some \<lparr>blob_data = stream cat_png, blob_content_type = ''image/png'', blob_public = True\<rparr> \<and>
   rows (snd (upload_image env_insert_fails post_cat one_image_world)) = [cat_row] \<and>
   row_filename cat_row = ''cat.png'' \<and>
   references env_insert_fails cat_row ''cat.png''"
  by (simp add: run_defs references_def env_ok_def env_insert_fails_def post_cat_def
      cat_png_def one_image_world_def cat_row_def old_cat_blob_def)

text \<open>Every handler keeps \<open>world_ok\<close>, and the empty store satisfies it.\<close>

lemma world_ok_dispatch:
  assumes "world_ok ev s" and "dispatch ev' rt req s = (res, s')"
    and "public_url ev' = public_url ev"
  shows "world_ok ev s'"
  using assms
  apply (cases rt)
  apply (auto simp: handler_defs prim_defs world_ok_def Let_def
      split: option.splits sum.splits prod.splits if_splits)
  apply (fastforce+)
  done

lemma world_ok_empty: "world_ok ev empty_world"
  by (simp add: world_ok_def empty_world_def)

text \<open>
  C10: For every Create request that succeeds and whose supplied filename equals the
  filename of an already-existing record, the upload overwrites the blob stored under that
  filename and a second row is appended with a fresh id, the same filename and the same
  access_url: two distinct records reference one blob, whose content is the new upload.
\<close>

theorem upload_image_same_filename_shares_blob:
  assumes "files req ''file'' = Some file"
    and "r \<in> set (rows s)" and "row_filename r = filename file"
    and "world_ok ev s"
    and "upload_image ev req s = (Inr resp, s')"
  shows "bucket s' = (bucket s)(filename file \<mapsto>
            \<lparr>blob_data = stream file, blob_content_type = content_type file, blob_public = True\<rparr>) \<and>
         rows s' = rows s @ [\<lparr>row_id = next_id s, row_filename = filename file,
                               filesize_bytes = content_length file, mime_type = content_type file,
                               access_url = public_url ev (filename file)\<rparr>] \<and>
         row_id r \<noteq> next_id s \<and>
         row_filename r = filename file \<and>
         access_url r = public_url ev (filename file)"
  using assms
  by (auto simp: upload_image_def prim_defs world_ok_def Let_def
      split: option.splits sum.splits prod.splits if_splits)

theorem upload_image_same_filename_shares_blob_witness:
  "files post_cat ''file'' = Some cat_png \<and>
   cat_row \<in> set (rows one_image_world) \<and> row_filename cat_row = filename cat_png \<and>
   world_ok env_ok one_image_world \<and>
   fst (upload_image env_ok post_cat one_image_world) =
     Inr \<lparr>status = 200, resp_content_type = ''application/json'',
          resp_body = JsonBody (Obj [(''message'', Str msg_uploaded), (''filename'', Str ''cat.png''),
            (''access_url'', Str ''https://storage.googleapis.com/imagenes/cat.png'')])\<rparr> \<and>
   bucket (snd (upload_image env_ok post_cat one_image_world)) =
     [''cat.png'' \<mapsto> \<lparr>blob_data = stream cat_png, blob_content_type = ''image/png'',
                        blob_public = True\<rparr>] \<and>
   rows (snd (upload_image env_ok post_cat one_image_world)) =
     [cat_row,
      \<lparr>row_id = 2, row_filename = ''cat.png'', filesize_bytes = 0, mime_type = ''image/png'',
       access_url = ''https://storage.googleapis.com/imagenes/cat.png''\<rparr>] \<and>
   access_url cat_row = ''https://storage.googleapis.com/imagenes/cat.png''"
  using upload_image_same_filename_shares_blob [of post_cat cat_png cat_row one_image_world env_ok
      "\<lparr>status = 200, resp_content_type = ''application/json'',
          resp_body = JsonBody (Obj [(''message'', Str msg_uploaded), (''filename'', Str ''cat.png''),
            (''access_url'', Str ''https://storage.googleapis.com/imagenes/cat.png'')])\<rparr>"
      "snd (upload_image env_ok post_cat one_image_world)"]
  by (simp add: run_defs world_ok_def env_ok_def post_cat_def cat_png_def
      one_image_world_def cat_row_def old_cat_blob_def)

text \<open>
  C9: A Create of \<open>cat.png\<close> (\<open>image/png\<close>, 1024 bytes of content) answers 200 with
  filename \<open>cat.png\<close> and a non-empty access_url, and a subsequent List shows the record;
  its filesize_bytes is the part's \<open>content_length\<close>. For a part that carries no
  Content-Length header that is 0, not the 1024 bytes of the content.
\<close>

theorem upload_image_stores_content_length_not_size:
  "length (stream cat_png) = 1024 \<and>
   filename cat_png = ''cat.png'' \<and> content_type cat_png = ''image/png'' \<and>
   fst (upload_image env_ok post_cat empty_world) =
     Inr \<lparr>status = 200, resp_content_type = ''application/json'',
          resp_body = JsonBody (Obj [(''message'', Str msg_uploaded), (''filename'', Str ''cat.png''),
            (''access_url'', Str ''https://storage.googleapis.com/imagenes/cat.png'')])\<rparr> \<and>
   fst (list_images env_ok bare_request (snd (upload_image env_ok post_cat empty_world))) =
     Inr \<lparr>status = 200, resp_content_type = ''application/json'',
          resp_body = JsonBody (Obj [(''images'', Arr
            [Obj [(''id'', Num 1), (''filename'', Str ''cat.png''), (''filesize_bytes'', Num 0),
                  (''mime_type'', Str ''image/png''),
                  (''access_url'', Str ''https://storage.googleapis.com/imagenes/cat.png'')]])])\<rparr>"
  by (simp add: run_defs image_dict_def env_ok_def post_cat_def cat_png_def empty_world_def
      bare_request_def)

subsection \<open>Delete\<close>

text \<open>
  C5: For every Delete request on an existing record, if the blob deletion fails (the
  storage call raises, or the blob is missing), the row deletion is not attempted: the
  storage error is returned and bucket and table are unchanged.
\<close>

theorem delete_image_blob_failure_keeps_row:
  assumes "find (\<lambda>r. row_id r = image_id) (rows s) = Some img"
    and "faults ev CallBlobDelete \<noteq> None \<or> bucket s (row_filename img) = None"
    and "delete_image ev req image_id s = (res, s')"
  shows "(\<exists>e. res = Inl e) \<and> rows s' = rows s \<and> bucket s' = bucket s \<and>
         EvDeleteRow image_id \<notin> set (calls_made s s') \<and> EvCommit \<notin> set (calls_made s s') \<and>
         (faults ev CallConnect = None \<and> faults ev CallSelect = None \<longrightarrow>
            res = Inl (case faults ev CallBlobDelete of Some e \<Rightarrow> e | None \<Rightarrow> StorageNotFoundError) \<and>
            calls_made s s' =
              [EvConnect, EvCursor, EvSelectById image_id, EvBlobDelete (row_filename img)])"
  using assms
  by (auto simp: delete_image_def prim_defs Let_def
      split: option.splits sum.splits prod.splits if_splits)

theorem delete_image_blob_failure_keeps_row_witness:
  "find (\<lambda>r. row_id r = 1) (rows one_image_world) = Some cat_row \<and>
   faults env_blob_delete_fails CallBlobDelete \<noteq> None \<and>
   faults env_blob_delete_fails CallConnect = None \<and>
   faults env_blob_delete_fails CallSelect = None \<and>
   fst (delete_image env_blob_delete_fails bare_request 1 one_image_world) = Inl StorageWriteError \<and>
   rows (snd (delete_image env_blob_delete_fails bare_request 1 one_image_world)) = [cat_row] \<and>
   bucket (snd (delete_image env_blob_delete_fails bare_request 1 one_image_world)) =
     [''cat.png'' \<mapsto> old_cat_blob] \<and>
   calls_made one_image_world (snd (delete_image env_blob_delete_fails bare_request 1 one_image_world)) =
     [EvConnect, EvCursor, EvSelectById 1, EvBlobDelete ''cat.png''] \<and>
   find (\<lambda>r. row_id r = 1) (rows dangling_world) = Some cat_row \<and>
   bucket dangling_world (row_filename cat_row) = None \<and>
   fst (delete_image env_ok bare_request 1 dangling_world) = Inl StorageNotFoundError \<and>
   rows (snd (delete_image env_ok bare_request 1 dangling_world)) = [cat_row]"
  using delete_image_blob_failure_keeps_row [of 1 one_image_world cat_row env_blob_delete_fails
      bare_request "fst (delete_image env_blob_delete_fails bare_request 1 one_image_world)"
      "snd (delete_image env_blob_delete_fails bare_request 1 one_image_world)"]
    delete_image_blob_failure_keeps_row [of 1 dangling_world cat_row env_ok
      bare_request "fst (delete_image env_ok bare_request 1 dangling_world)"
      "snd (delete_image env_ok bare_request 1 dangling_world)"]
  by (simp add: run_defs env_ok_def env_blob_delete_fails_def bare_request_def
      one_image_world_def dangling_world_def cat_row_def old_cat_blob_def)

subsection \<open>Database connections\<close>




end
